theory Spec2Isabelle
  imports Complex_Main "HOL-Library.Sublist"
begin

section \<open>Order tracking: data model\<close>

text \<open>
  The order tracking page keeps a static table of orders (\<open>mockOrderStatuses\<close>), looks an
  order up by the pair (order id, email) in \<open>onSubmit\<close>, and renders the record it found.
  A JavaScript string is modelled as a \<^typ>\<open>string\<close>: one \<^typ>\<open>char\<close> stands for one code
  unit, \<open>===\<close> on strings is equality of the sequences and \<open>.length\<close> is \<^const>\<open>length\<close>.
  Every string literal of the source is ASCII.
\<close>

text \<open>An entry of \<open>trackingHistory\<close>: \<open>{ status, timestamp, location }\<close>. The field names
  carry the prefix \<open>ev_\<close> because \<open>status\<close> is also a field of the order.\<close>

record tracking_event =
  ev_status :: string
  ev_timestamp :: string
  ev_location :: string

text \<open>\<open>currentLocation\<close>: \<open>{ lat, lng, address }\<close>. The coordinates are the decimal literals
  of the source.\<close>

record geo_location =
  lat :: rat
  lng :: rat
  address :: string

text \<open>A value of the table \<open>mockOrderStatuses\<close>.\<close>

record order_data =
  status :: string
  customer :: string
  email :: string
  orderDate :: string
  items :: "string list"
  currentLocation :: geo_location
  estimatedDelivery :: string
  trackingHistory :: "tracking_event list"

definition ORD123456 :: order_data where
  "ORD123456 = \<lparr>
     status = ''in-transit'',
     customer = ''Rahul Sharma'',
     email = ''test@example.com'',
     orderDate = ''2023-11-15T10:30:00'',
     items = [''Paneer Tikka (15 pcs)'', ''Butter Chicken (2kg)'',
              ''Vegetable Biryani (30 servings)''],
     currentLocation = \<lparr> lat = 129716 / 10000, lng = 775946 / 10000,
                         address = ''Bannerghatta Road, Near JP Nagar'' \<rparr>,
     estimatedDelivery = ''2023-11-15T14:30:00'',
     trackingHistory = [
       \<lparr> ev_status = ''order-placed'', ev_timestamp = ''2023-11-15T10:30:00'',
         ev_location = ''Vendor Facility'' \<rparr>,
       \<lparr> ev_status = ''preparing'', ev_timestamp = ''2023-11-15T11:15:00'',
         ev_location = ''Vendor Kitchen'' \<rparr>,
       \<lparr> ev_status = ''in-transit'', ev_timestamp = ''2023-11-15T13:00:00'',
         ev_location = ''En Route to Destination'' \<rparr> ] \<rparr>"

definition ORD789012 :: order_data where
  "ORD789012 = \<lparr>
     status = ''delivered'',
     customer = ''Ananya Patel'',
     email = ''test@example.com'',
     orderDate = ''2023-11-14T09:45:00'',
     items = [''Veg Starter Combo (25 persons)'', ''Main Course Buffet (25 persons)''],
     currentLocation = \<lparr> lat = 129352 / 10000, lng = 776245 / 10000,
                         address = ''Koramangala, 5th Block'' \<rparr>,
     estimatedDelivery = ''2023-11-14T12:45:00'',
     trackingHistory = [
       \<lparr> ev_status = ''order-placed'', ev_timestamp = ''2023-11-14T09:45:00'',
         ev_location = ''Vendor Facility'' \<rparr>,
       \<lparr> ev_status = ''preparing'', ev_timestamp = ''2023-11-14T10:15:00'',
         ev_location = ''Vendor Kitchen'' \<rparr>,
       \<lparr> ev_status = ''in-transit'', ev_timestamp = ''2023-11-14T11:30:00'',
         ev_location = ''En Route to Destination'' \<rparr>,
       \<lparr> ev_status = ''delivered'', ev_timestamp = ''2023-11-14T12:40:00'',
         ev_location = ''Destination'' \<rparr> ] \<rparr>"

text \<open>The object literal \<open>mockOrderStatuses\<close>, as the list of its own properties.\<close>

definition mockOrderStatuses :: "(string \<times> order_data) list" where
  "mockOrderStatuses = [(''ORD123456'', ORD123456), (''ORD789012'', ORD789012)]"

section \<open>Property access on the table\<close>

text \<open>
  \<open>mockOrderStatuses[values.orderId]\<close> is a property read on a plain object. It yields the
  order for an own key, a member of \<open>Object.prototype\<close> for a key inherited through the
  prototype chain, and \<open>undefined\<close> for every other key. \<open>null\<close> is the initial value of
  the state variable \<open>trackingResult\<close>.
\<close>

datatype js_value = Undefined | Null | OrderData order_data | Inherited string

datatype js_error = TypeError

definition object_prototype_keys :: "string list" where
  "object_prototype_keys =
     [''constructor'', ''hasOwnProperty'', ''isPrototypeOf'', ''propertyIsEnumerable'',
      ''toLocaleString'', ''toString'', ''valueOf'', ''__proto__'',
      ''__defineGetter__'', ''__defineSetter__'', ''__lookupGetter__'', ''__lookupSetter__'']"

definition js_get :: "(string \<times> order_data) list \<Rightarrow> string \<Rightarrow> js_value" where
  "js_get obj k =
     (case map_of obj k of
        Some r \<Rightarrow> OrderData r
      | None \<Rightarrow> if k \<in> set object_prototype_keys then Inherited k else Undefined)"

text \<open>Truthiness, as the left operand of \<open>&&\<close> uses it: objects and functions are truthy.\<close>

fun truthy :: "js_value \<Rightarrow> bool" where
  "truthy Undefined = False"
| "truthy Null = False"
| "truthy (OrderData r) = True"
| "truthy (Inherited k) = True"

text \<open>\<open>orderData.email\<close>: a TypeError on \<open>undefined\<close> and \<open>null\<close>, the field of an order,
  and \<open>undefined\<close> (here \<open>None\<close>) on a member of \<open>Object.prototype\<close>, none of which has a
  property \<open>email\<close>.\<close>

fun get_email :: "js_value \<Rightarrow> js_error + string option" where
  "get_email Undefined = Inl TypeError"
| "get_email Null = Inl TypeError"
| "get_email (OrderData r) = Inr (Some (email r))"
| "get_email (Inherited k) = Inr None"

section \<open>The view state and the lookup\<close>

record toast =
  title :: string
  description :: string
  variant :: "string option"

definition toast_found :: toast where
  "toast_found = \<lparr> title = ''Order Found'',
     description = ''Displaying tracking information for your order.'',
     variant = None \<rparr>"

definition toast_not_found :: toast where
  "toast_not_found = \<lparr> title = ''Order Not Found'',
     description = ''We couldn't find an order with the provided ID and email. Please check and try again.'',
     variant = Some ''destructive'' \<rparr>"

text \<open>The two \<open>useState\<close> cells of the component and the notifications shown so far.\<close>

record view_state =
  trackingResult :: js_value
  loading :: bool
  toasts :: "toast list"

definition initial_state :: view_state where
  "initial_state = \<lparr> trackingResult = Null, loading = False, toasts = [] \<rparr>"

text \<open>The submitted form: \<open>{ orderId, email }\<close>. The email field is named \<open>values_email\<close>
  because \<open>email\<close> is a field of the order.\<close>

record form_values =
  orderId :: string
  values_email :: string

text \<open>The two branches of the \<open>setTimeout\<close> callback, each followed by
  \<open>setLoading(false)\<close>: the first stores the order and shows "Order Found", the second
  shows "Order Not Found" and stores \<open>null\<close>.\<close>

definition order_found :: "js_value \<Rightarrow> view_state \<Rightarrow> view_state" where
  "order_found orderData st =
     st\<lparr> trackingResult := orderData, toasts := toasts st @ [toast_found],
         loading := False \<rparr>"

definition order_not_found :: "view_state \<Rightarrow> view_state" where
  "order_not_found st =
     st\<lparr> toasts := toasts st @ [toast_not_found], trackingResult := Null,
         loading := False \<rparr>"

text \<open>The body of the \<open>setTimeout\<close> callback of \<open>onSubmit\<close>. The condition
  \<open>orderData && orderData.email === values.email\<close> reads the field only when the left
  operand is truthy.\<close>

definition lookup_callback :: "form_values \<Rightarrow> view_state \<Rightarrow> js_error + view_state" where
  "lookup_callback values st =
     (let orderData = js_get mockOrderStatuses (orderId values)
      in if \<not> truthy orderData then Inr (order_not_found st)
         else case get_email orderData of
                Inl e \<Rightarrow> Inl e
              | Inr em \<Rightarrow>
                  if em = Some (values_email values)
                  then Inr (order_found orderData st)
                  else Inr (order_not_found st))"

text \<open>\<open>onSubmit\<close>: \<open>setLoading(true)\<close>, then the callback (the delay of 1500 ms is not
  modelled).\<close>

definition onSubmit :: "form_values \<Rightarrow> view_state \<Rightarrow> js_error + view_state" where
  "onSubmit values st = lookup_callback values (st\<lparr> loading := True \<rparr>)"

section \<open>Form validation\<close>

text \<open>
  \<open>trackingFormSchema\<close>: \<open>orderId\<close> is a string of length at least 3 and \<open>email\<close> passes
  the schema library's email check. That check is a regular expression of the library and
  is taken as the parameter \<open>is_email\<close>.
\<close>

definition trackingFormSchema :: "(string \<Rightarrow> bool) \<Rightarrow> form_values \<Rightarrow> bool" where
  "trackingFormSchema is_email values \<longleftrightarrow>
     3 \<le> length (orderId values) \<and> is_email (values_email values)"

text \<open>\<open>form.handleSubmit(onSubmit)\<close> with the resolver \<open>zodResolver(trackingFormSchema)\<close>:
  the form library validates the values with the resolver and calls \<open>onSubmit\<close> only when
  the resolver reports no error; otherwise it records the field errors in the form's own
  state and the component's state is untouched.\<close>

definition handleSubmit ::
  "(string \<Rightarrow> bool) \<Rightarrow> form_values \<Rightarrow> view_state \<Rightarrow> js_error + view_state" where
  "handleSubmit is_email values st =
     (if trackingFormSchema is_email values then onSubmit values st else Inr st)"

section \<open>Rendering\<close>

text \<open>\<open>getProgressPercentage\<close>: the \<open>switch\<close> on the status, in the order of its cases.\<close>

definition getProgressPercentage :: "string \<Rightarrow> int" where
  "getProgressPercentage s =
     (if s = ''order-placed'' then 25
      else if s = ''preparing'' then 50
      else if s = ''in-transit'' then 75
      else if s = ''delivered'' then 100
      else 0)"

text \<open>The statuses in lifecycle order: the order of the cases of \<open>getProgressPercentage\<close>
  and of the labels of the progress tracker.\<close>

definition lifecycle :: "string list" where
  "lifecycle = [''order-placed'', ''preparing'', ''in-transit'', ''delivered'']"

text \<open>
  The "Delivered on" line: rendered only when the status is \<open>delivered\<close>; it evaluates
  \<open>trackingHistory.find(h => h.status === "delivered").timestamp\<close>, a TypeError when
  \<open>find\<close> returns \<open>undefined\<close>. The result is the timestamp passed to \<open>formatDate\<close>
  (\<open>None\<close> when the line is not rendered); date formatting is not modelled.
\<close>

definition delivered_on :: "order_data \<Rightarrow> js_error + string option" where
  "delivered_on r =
     (if status r = ''delivered''
      then case find (\<lambda>h. ev_status h = ''delivered'') (trackingHistory r) of
             None \<Rightarrow> Inl TypeError
           | Some h \<Rightarrow> Inr (Some (ev_timestamp h))
      else Inr None)"

section \<open>The status-to-progress mapping\<close>

text \<open>
  Claim C1. \<open>getProgressPercentage\<close> is a total function from strings to integers: it maps
  the four lifecycle statuses, in lifecycle order, to 25, 50, 75 and 100, and every other
  string to 0.
\<close>

theorem getProgressPercentage_total:
  "map getProgressPercentage lifecycle = [25, 50, 75, 100]
   \<and> (s \<notin> set lifecycle \<longrightarrow> getProgressPercentage s = 0)"
  by (simp add: getProgressPercentage_def lifecycle_def)

theorem getProgressPercentage_total_witness:
  "''cancelled'' \<notin> set lifecycle \<and> getProgressPercentage ''cancelled'' = 0"
  using getProgressPercentage_total [of "''cancelled''"]
  by (simp add: lifecycle_def)

section \<open>The lookup\<close>

lemma map_of_mockOrderStatuses:
  "map_of mockOrderStatuses k = Some r \<longleftrightarrow> (k, r) \<in> set mockOrderStatuses"
  by (rule map_of_eq_Some_iff) (simp add: mockOrderStatuses_def)

lemma lookup_callback_eq:
  "lookup_callback values st =
     Inr (case map_of mockOrderStatuses (orderId values) of
            Some r \<Rightarrow> if email r = values_email values
                      then order_found (OrderData r) st else order_not_found st
          | None \<Rightarrow> order_not_found st)"
  by (simp add: lookup_callback_def js_get_def Let_def split: option.split)

lemma toast_found_neq: "toast_found \<noteq> toast_not_found"
  by (simp add: toast_found_def toast_not_found_def)

lemma lookup_callback_match:
  assumes "(orderId values, r) \<in> set mockOrderStatuses" "email r = values_email values"
  shows "lookup_callback values st = Inr (order_found (OrderData r) st)"
proof -
  from assms(1) have "map_of mockOrderStatuses (orderId values) = Some r"
    by (simp add: map_of_mockOrderStatuses)
  with assms(2) show ?thesis by (simp add: lookup_callback_eq)
qed

lemma lookup_callback_mismatch:
  assumes "\<not> (\<exists>r. (orderId values, r) \<in> set mockOrderStatuses \<and> email r = values_email values)"
  shows "lookup_callback values st = Inr (order_not_found st)"
proof (cases "map_of mockOrderStatuses (orderId values)")
  case None
  then show ?thesis by (simp add: lookup_callback_eq)
next
  case (Some r)
  then have "(orderId values, r) \<in> set mockOrderStatuses"
    by (simp add: map_of_mockOrderStatuses)
  with assms have "email r \<noteq> values_email values" by blast
  with Some show ?thesis by (simp add: lookup_callback_eq)
qed

text \<open>
  Claim C2. For every pair (order id, email) and every prior state, \<open>onSubmit\<close> stores the
  order \<open>r\<close> as tracking result and shows "Order Found" if and only if the table has \<open>r\<close>
  under exactly that id and the email of \<open>r\<close> is exactly the given email (equality of
  strings, so case matters). When no record matches in both fields (wrong id, wrong email
  or both), it signals not-found: it shows the "Order Not Found" notification and the
  stored tracking result is \<open>null\<close>, so no record is returned.
\<close>

theorem onSubmit_found_iff:
  "((\<exists>st'. onSubmit values st = Inr st'
          \<and> trackingResult st' = OrderData r
          \<and> toasts st' = toasts st @ [toast_found]
          \<and> loading st' = False)
      \<longleftrightarrow> (orderId values, r) \<in> set mockOrderStatuses \<and> email r = values_email values)
   \<and> (\<not> (\<exists>r. (orderId values, r) \<in> set mockOrderStatuses \<and> email r = values_email values)
      \<longrightarrow> (\<exists>st'. onSubmit values st = Inr st'
              \<and> trackingResult st' = Null
              \<and> toasts st' = toasts st @ [toast_not_found]
              \<and> loading st' = False))"
proof (rule conjI)
  let ?st = "st\<lparr>loading := True\<rparr>"
  let ?match = "\<lambda>r. (orderId values, r) \<in> set mockOrderStatuses \<and> email r = values_email values"
  let ?found = "\<exists>st'. onSubmit values st = Inr st'
          \<and> trackingResult st' = OrderData r
          \<and> toasts st' = toasts st @ [toast_found]
          \<and> loading st' = False"
  show "?found \<longleftrightarrow> ?match r"
  proof
    assume ?found
    then obtain st' where run: "lookup_callback values ?st = Inr st'"
      and res: "trackingResult st' = OrderData r"
      by (auto simp add: onSubmit_def)
    show "?match r"
    proof (cases "map_of mockOrderStatuses (orderId values)")
      case None
      with run have "st' = order_not_found ?st" by (simp add: lookup_callback_eq)
      with res show ?thesis by (simp add: order_not_found_def)
    next
      case (Some r')
      show ?thesis
      proof (cases "email r' = values_email values")
        case True
        with Some run have "st' = order_found (OrderData r') ?st"
          by (simp add: lookup_callback_eq)
        with res have "r' = r" by (simp add: order_found_def)
        with Some True show ?thesis by (simp add: map_of_mockOrderStatuses)
      next
        case False
        with Some run have "st' = order_not_found ?st" by (simp add: lookup_callback_eq)
        with res show ?thesis by (simp add: order_not_found_def)
      qed
    qed
  next
    assume "?match r"
    then have "onSubmit values st = Inr (order_found (OrderData r) ?st)"
      by (simp add: onSubmit_def lookup_callback_match)
    then show ?found by (simp add: order_found_def)
  qed
  show "\<not> (\<exists>r. ?match r)
      \<longrightarrow> (\<exists>st'. onSubmit values st = Inr st'
              \<and> trackingResult st' = Null
              \<and> toasts st' = toasts st @ [toast_not_found]
              \<and> loading st' = False)"
  proof
    assume "\<not> (\<exists>r. ?match r)"
    then have "lookup_callback values ?st = Inr (order_not_found ?st)"
      by (rule lookup_callback_mismatch)
    then show "\<exists>st'. onSubmit values st = Inr st'
              \<and> trackingResult st' = Null
              \<and> toasts st' = toasts st @ [toast_not_found]
              \<and> loading st' = False"
      by (simp add: onSubmit_def order_not_found_def)
  qed
qed

theorem onSubmit_found_iff_witness:
  "((''ORD789012'', ORD789012) \<in> set mockOrderStatuses \<and> email ORD789012 = ''test@example.com'')
   \<and> (\<exists>st'. onSubmit \<lparr>orderId = ''ORD789012'', values_email = ''test@example.com''\<rparr>
               initial_state = Inr st'
          \<and> trackingResult st' = OrderData ORD789012
          \<and> toasts st' = toasts initial_state @ [toast_found]
          \<and> loading st' = False)
   \<and> \<not> (\<exists>r. (''ORD123456'', r) \<in> set mockOrderStatuses \<and> email r = ''Test@example.com'')
   \<and> (\<exists>st'. onSubmit \<lparr>orderId = ''ORD123456'', values_email = ''Test@example.com''\<rparr>
               (order_found (OrderData ORD789012) initial_state) = Inr st'
          \<and> trackingResult st' = Null
          \<and> toasts st' = toasts (order_found (OrderData ORD789012) initial_state)
                           @ [toast_not_found]
          \<and> loading st' = False)"
proof -
  let ?v = "\<lparr>orderId = ''ORD789012'', values_email = ''test@example.com''\<rparr>"
  let ?w = "\<lparr>orderId = ''ORD123456'', values_email = ''Test@example.com''\<rparr>"
  let ?s = "order_found (OrderData ORD789012) initial_state"
  have m: "(''ORD789012'', ORD789012) \<in> set mockOrderStatuses
           \<and> email ORD789012 = ''test@example.com''"
    by (simp add: mockOrderStatuses_def ORD789012_def)
  have n: "\<not> (\<exists>r. (''ORD123456'', r) \<in> set mockOrderStatuses \<and> email r = ''Test@example.com'')"
    by (simp add: mockOrderStatuses_def ORD123456_def)
  from m onSubmit_found_iff [of ?v initial_state ORD789012]
  have f: "\<exists>st'. onSubmit ?v initial_state = Inr st'
          \<and> trackingResult st' = OrderData ORD789012
          \<and> toasts st' = toasts initial_state @ [toast_found]
          \<and> loading st' = False"
    by simp
  from n onSubmit_found_iff [of ?w ?s ORD123456]
  have g: "\<exists>st'. onSubmit ?w ?s = Inr st'
          \<and> trackingResult st' = Null
          \<and> toasts st' = toasts ?s @ [toast_not_found]
          \<and> loading st' = False"
    by simp
  from m f n g show ?thesis by blast
qed

text \<open>
  Claim C6. The lookup of id "ORD123456" with email "test@example.com" succeeds with a
  record of status "in-transit" and progress 75; the lookup of id "ORD789012" with the same
  email succeeds with a record of status "delivered" and progress 100.
\<close>

theorem onSubmit_examples:
  "(\<exists>st' r. onSubmit \<lparr>orderId = ''ORD123456'', values_email = ''test@example.com''\<rparr> st = Inr st'
       \<and> trackingResult st' = OrderData r \<and> toasts st' = toasts st @ [toast_found]
       \<and> status r = ''in-transit'' \<and> getProgressPercentage (status r) = 75)
   \<and> (\<exists>st' r. onSubmit \<lparr>orderId = ''ORD789012'', values_email = ''test@example.com''\<rparr> st = Inr st'
       \<and> trackingResult st' = OrderData r \<and> toasts st' = toasts st @ [toast_found]
       \<and> status r = ''delivered'' \<and> getProgressPercentage (status r) = 100)"
proof (rule conjI)
  let ?st = "st\<lparr>loading := True\<rparr>"
  have "lookup_callback \<lparr>orderId = ''ORD123456'', values_email = ''test@example.com''\<rparr> ?st
        = Inr (order_found (OrderData ORD123456) ?st)"
    by (rule lookup_callback_match) (simp_all add: mockOrderStatuses_def ORD123456_def)
  moreover have "status ORD123456 = ''in-transit''"
    by (simp add: ORD123456_def)
  ultimately show "\<exists>st' r.
       onSubmit \<lparr>orderId = ''ORD123456'', values_email = ''test@example.com''\<rparr> st = Inr st'
       \<and> trackingResult st' = OrderData r \<and> toasts st' = toasts st @ [toast_found]
       \<and> status r = ''in-transit'' \<and> getProgressPercentage (status r) = 75"
    by (simp add: onSubmit_def order_found_def getProgressPercentage_def)
  have "lookup_callback \<lparr>orderId = ''ORD789012'', values_email = ''test@example.com''\<rparr> ?st
        = Inr (order_found (OrderData ORD789012) ?st)"
    by (rule lookup_callback_match) (simp_all add: mockOrderStatuses_def ORD789012_def)
  moreover have "status ORD789012 = ''delivered''"
    by (simp add: ORD789012_def)
  ultimately show "\<exists>st' r.
       onSubmit \<lparr>orderId = ''ORD789012'', values_email = ''test@example.com''\<rparr> st = Inr st'
       \<and> trackingResult st' = OrderData r \<and> toasts st' = toasts st @ [toast_found]
       \<and> status r = ''delivered'' \<and> getProgressPercentage (status r) = 100"
    by (simp add: onSubmit_def order_found_def getProgressPercentage_def)
qed

text \<open>
  Claim C7. For every email, the lookup of id "ORD000000" announces "Order Not Found".
  That is the only way a lookup fails: \<open>onSubmit\<close> never raises, and every run ends either
  in the found state or in the not-found state.
\<close>

theorem onSubmit_unknown_id:
  "onSubmit \<lparr>orderId = ''ORD000000'', values_email = e\<rparr> st
     = Inr (order_not_found (st\<lparr>loading := True\<rparr>))
   \<and> toasts (order_not_found (st\<lparr>loading := True\<rparr>)) = toasts st @ [toast_not_found]
   \<and> onSubmit values st \<noteq> Inl err
   \<and> (onSubmit values st = Inr (order_not_found (st\<lparr>loading := True\<rparr>))
      \<or> (\<exists>r. onSubmit values st = Inr (order_found (OrderData r) (st\<lparr>loading := True\<rparr>))))"
proof (intro conjI)
  have "\<not> (\<exists>r. (''ORD000000'', r) \<in> set mockOrderStatuses \<and> email r = e)"
    by (simp add: mockOrderStatuses_def)
  then show "onSubmit \<lparr>orderId = ''ORD000000'', values_email = e\<rparr> st
     = Inr (order_not_found (st\<lparr>loading := True\<rparr>))"
    by (simp add: onSubmit_def lookup_callback_mismatch)
  show "toasts (order_not_found (st\<lparr>loading := True\<rparr>)) = toasts st @ [toast_not_found]"
    by (simp add: order_not_found_def)
  show "onSubmit values st \<noteq> Inl err"
    by (simp add: onSubmit_def lookup_callback_eq)
  show "onSubmit values st = Inr (order_not_found (st\<lparr>loading := True\<rparr>))
      \<or> (\<exists>r. onSubmit values st = Inr (order_found (OrderData r) (st\<lparr>loading := True\<rparr>)))"
    by (auto simp add: onSubmit_def lookup_callback_eq split: option.split)
qed

text \<open>
  Claim C8. When a lookup fails, the stored tracking result becomes \<open>null\<close>, whatever was
  stored before: a record shown by an earlier successful lookup is cleared.
\<close>

theorem onSubmit_failure_clears:
  "\<not> (\<exists>r. (orderId values, r) \<in> set mockOrderStatuses \<and> email r = values_email values)
   \<Longrightarrow> \<exists>st'. onSubmit values st = Inr st' \<and> trackingResult st' = Null"
  by (simp add: onSubmit_def lookup_callback_mismatch order_not_found_def)

theorem onSubmit_failure_clears_witness:
  "trackingResult (order_found (OrderData ORD123456) initial_state) = OrderData ORD123456
   \<and> \<not> (\<exists>r. (''ORD000000'', r) \<in> set mockOrderStatuses \<and> email r = ''test@example.com'')
   \<and> (\<exists>st'. onSubmit \<lparr>orderId = ''ORD000000'', values_email = ''test@example.com''\<rparr>
               (order_found (OrderData ORD123456) initial_state) = Inr st'
             \<and> trackingResult st' = Null)"
proof -
  have n: "\<not> (\<exists>r. (orderId \<lparr>orderId = ''ORD000000'', values_email = ''test@example.com''\<rparr>, r)
                  \<in> set mockOrderStatuses
              \<and> email r = values_email \<lparr>orderId = ''ORD000000'', values_email = ''test@example.com''\<rparr>)"
    by (simp add: mockOrderStatuses_def)
  have s: "trackingResult (order_found (OrderData ORD123456) initial_state) = OrderData ORD123456"
    by (simp add: order_found_def)
  from n s onSubmit_failure_clears [OF n, of "order_found (OrderData ORD123456) initial_state"]
  show ?thesis by simp
qed

section \<open>Form validation before the lookup\<close>

text \<open>
  Claim C9. The lookup runs only when the submitted order id has length at least 3 and the
  submitted email passes the email check: values that violate either constraint are
  rejected before \<open>onSubmit\<close> is called and the component's state, the stored tracking result
  included, is unchanged; valid values are handed to \<open>onSubmit\<close>.
\<close>

theorem handleSubmit_validates:
  "(\<not> (3 \<le> length (orderId values) \<and> is_email (values_email values))
      \<longrightarrow> handleSubmit is_email values st = Inr st
          \<and> (\<forall>st'. handleSubmit is_email values st = Inr st'
                \<longrightarrow> trackingResult st' = trackingResult st))
   \<and> ((\<exists>st'. handleSubmit is_email values st = Inr st' \<and> toasts st' \<noteq> toasts st)
      \<longrightarrow> 3 \<le> length (orderId values) \<and> is_email (values_email values))
   \<and> (3 \<le> length (orderId values) \<and> is_email (values_email values)
      \<longrightarrow> handleSubmit is_email values st = onSubmit values st)"
  by (auto simp add: handleSubmit_def trackingFormSchema_def)

theorem handleSubmit_validates_witness:
  "\<not> (3 \<le> length ''OR'' \<and> CHR ''@'' \<in> set ''test@example.com'')
   \<and> handleSubmit (\<lambda>s. CHR ''@'' \<in> set s)
        \<lparr>orderId = ''OR'', values_email = ''test@example.com''\<rparr>
        (order_found (OrderData ORD123456) initial_state)
      = Inr (order_found (OrderData ORD123456) initial_state)
   \<and> \<not> (3 \<le> length ''ORD123456'' \<and> CHR ''@'' \<in> set ''test.example.com'')
   \<and> handleSubmit (\<lambda>s. CHR ''@'' \<in> set s)
        \<lparr>orderId = ''ORD123456'', values_email = ''test.example.com''\<rparr> initial_state
      = Inr initial_state
   \<and> (3 \<le> length ''ORD123456'' \<and> CHR ''@'' \<in> set ''test@example.com'')
   \<and> handleSubmit (\<lambda>s. CHR ''@'' \<in> set s)
        \<lparr>orderId = ''ORD123456'', values_email = ''test@example.com''\<rparr> initial_state
      = onSubmit \<lparr>orderId = ''ORD123456'', values_email = ''test@example.com''\<rparr> initial_state"
proof -
  let ?is_email = "\<lambda>s. CHR ''@'' \<in> set s"
  have a: "\<not> (3 \<le> length ''OR'' \<and> CHR ''@'' \<in> set ''test@example.com'')"
    by simp
  have b: "\<not> (3 \<le> length ''ORD123456'' \<and> CHR ''@'' \<in> set ''test.example.com'')"
    by simp
  have c: "3 \<le> length ''ORD123456'' \<and> CHR ''@'' \<in> set ''test@example.com''"
    by simp
  from a handleSubmit_validates
    [of "\<lparr>orderId = ''OR'', values_email = ''test@example.com''\<rparr>" ?is_email
        "order_found (OrderData ORD123456) initial_state"]
  have a': "handleSubmit ?is_email \<lparr>orderId = ''OR'', values_email = ''test@example.com''\<rparr>
              (order_found (OrderData ORD123456) initial_state)
            = Inr (order_found (OrderData ORD123456) initial_state)"
    by simp
  from b handleSubmit_validates
    [of "\<lparr>orderId = ''ORD123456'', values_email = ''test.example.com''\<rparr>" ?is_email
        initial_state]
  have b': "handleSubmit ?is_email
              \<lparr>orderId = ''ORD123456'', values_email = ''test.example.com''\<rparr> initial_state
            = Inr initial_state"
    by simp
  from c handleSubmit_validates
    [of "\<lparr>orderId = ''ORD123456'', values_email = ''test@example.com''\<rparr>" ?is_email
        initial_state]
  have c': "handleSubmit ?is_email
              \<lparr>orderId = ''ORD123456'', values_email = ''test@example.com''\<rparr> initial_state
            = onSubmit \<lparr>orderId = ''ORD123456'', values_email = ''test@example.com''\<rparr>
                initial_state"
    by simp
  from a a' b b' c c' show ?thesis by blast
qed

section \<open>The static table\<close>

lemma mockOrderStatuses_cases:
  "(k, r) \<in> set mockOrderStatuses \<Longrightarrow> r = ORD123456 \<or> r = ORD789012"
  by (auto simp add: mockOrderStatuses_def)

text \<open>
  The status-to-progress mapping does not know a status named "placed": it maps that
  string to 0, as any other string that is not one of its four cases, so the mapping does
  not yield 25 on "placed".
\<close>

theorem placed_is_not_a_status:
  "getProgressPercentage ''placed'' = 0 \<and> getProgressPercentage ''placed'' \<noteq> 25"
  by (simp add: getProgressPercentage_def)

text \<open>
  Claim C3, as amended. The status assigned at order placement is named "order-placed":
  in every record of the table the first entry of the tracking history has that status
  and the timestamp of the order date. \<open>getProgressPercentage\<close> maps "order-placed" to 25.
\<close>

theorem order_placed_is_first:
  "(\<forall>(k, r) \<in> set mockOrderStatuses.
      trackingHistory r \<noteq> []
      \<and> ev_status (hd (trackingHistory r)) = ''order-placed''
      \<and> ev_timestamp (hd (trackingHistory r)) = orderDate r)
   \<and> getProgressPercentage ''order-placed'' = 25"
proof (intro conjI ballI)
  fix x assume "x \<in> set mockOrderStatuses"
  then have "snd x = ORD123456 \<or> snd x = ORD789012"
    using mockOrderStatuses_cases [of "fst x" "snd x"] by simp
  then show "case x of (k, r) \<Rightarrow>
      trackingHistory r \<noteq> []
      \<and> ev_status (hd (trackingHistory r)) = ''order-placed''
      \<and> ev_timestamp (hd (trackingHistory r)) = orderDate r"
    by (auto simp add: case_prod_beta ORD123456_def ORD789012_def)
qed (simp add: getProgressPercentage_def)

theorem order_placed_is_first_witness:
  "(''ORD123456'', ORD123456) \<in> set mockOrderStatuses
   \<and> trackingHistory ORD123456 \<noteq> []
   \<and> ev_status (hd (trackingHistory ORD123456)) = ''order-placed''
   \<and> ev_timestamp (hd (trackingHistory ORD123456)) = orderDate ORD123456"
proof -
  have m: "(''ORD123456'', ORD123456) \<in> set mockOrderStatuses"
    by (simp add: mockOrderStatuses_def)
  from order_placed_is_first have "\<forall>(k, r) \<in> set mockOrderStatuses.
      trackingHistory r \<noteq> []
      \<and> ev_status (hd (trackingHistory r)) = ''order-placed''
      \<and> ev_timestamp (hd (trackingHistory r)) = orderDate r"
    by (rule conjunct1)
  from bspec [OF this m] m show ?thesis by simp
qed

text \<open>
  Claim C4. For every record of the table, the last entry of the tracking history carries
  the record's current status.
\<close>

theorem last_history_is_status:
  "\<forall>(k, r) \<in> set mockOrderStatuses.
     trackingHistory r \<noteq> [] \<and> ev_status (last (trackingHistory r)) = status r"
proof (rule ballI)
  fix x assume "x \<in> set mockOrderStatuses"
  then have "snd x = ORD123456 \<or> snd x = ORD789012"
    using mockOrderStatuses_cases [of "fst x" "snd x"] by simp
  then show "case x of (k, r) \<Rightarrow>
      trackingHistory r \<noteq> [] \<and> ev_status (last (trackingHistory r)) = status r"
    by (auto simp add: case_prod_beta ORD123456_def ORD789012_def)
qed

theorem last_history_is_status_witness:
  "(''ORD789012'', ORD789012) \<in> set mockOrderStatuses
   \<and> trackingHistory ORD789012 \<noteq> []
   \<and> ev_status (last (trackingHistory ORD789012)) = status ORD789012"
proof -
  have m: "(''ORD789012'', ORD789012) \<in> set mockOrderStatuses"
    by (simp add: mockOrderStatuses_def)
  from bspec [OF last_history_is_status m] m show ?thesis by simp
qed

text \<open>
  Claim C5. For every record of the table, the statuses of the tracking history are an
  initial segment of the lifecycle (placement, preparing, in-transit, delivered): the
  history starts at placement and each entry is the stage right after the one before it,
  so nothing is skipped, reversed or repeated; in particular the progress percentages of
  the history never decrease.
\<close>

theorem history_follows_lifecycle:
  "\<forall>(k, r) \<in> set mockOrderStatuses.
     prefix (map ev_status (trackingHistory r)) lifecycle
     \<and> sorted (map (getProgressPercentage \<circ> ev_status) (trackingHistory r))"
proof (rule ballI)
  fix x assume "x \<in> set mockOrderStatuses"
  then have "snd x = ORD123456 \<or> snd x = ORD789012"
    using mockOrderStatuses_cases [of "fst x" "snd x"] by simp
  then show "case x of (k, r) \<Rightarrow>
      prefix (map ev_status (trackingHistory r)) lifecycle
      \<and> sorted (map (getProgressPercentage \<circ> ev_status) (trackingHistory r))"
    by (auto simp add: case_prod_beta ORD123456_def ORD789012_def lifecycle_def
          getProgressPercentage_def)
qed

theorem history_follows_lifecycle_witness:
  "(''ORD123456'', ORD123456) \<in> set mockOrderStatuses
   \<and> prefix (map ev_status (trackingHistory ORD123456)) lifecycle
   \<and> sorted (map (getProgressPercentage \<circ> ev_status) (trackingHistory ORD123456))"
proof -
  have m: "(''ORD123456'', ORD123456) \<in> set mockOrderStatuses"
    by (simp add: mockOrderStatuses_def)
  from bspec [OF history_follows_lifecycle m] m show ?thesis by simp
qed

text \<open>
  Claim C10. Every record of the table whose status is "delivered" has an entry with
  status "delivered" in its tracking history, so the "Delivered on" line finds an entry
  and reads its timestamp; for no record of the table does that line raise.
\<close>

theorem delivered_entry_exists:
  "\<forall>(k, r) \<in> set mockOrderStatuses.
     (status r = ''delivered'' \<longrightarrow>
        (\<exists>h \<in> set (trackingHistory r). ev_status h = ''delivered'')
        \<and> (\<exists>h. find (\<lambda>h. ev_status h = ''delivered'') (trackingHistory r) = Some h
               \<and> delivered_on r = Inr (Some (ev_timestamp h))))
     \<and> delivered_on r \<noteq> Inl TypeError"
proof (rule ballI)
  fix x assume "x \<in> set mockOrderStatuses"
  then have "snd x = ORD123456 \<or> snd x = ORD789012"
    using mockOrderStatuses_cases [of "fst x" "snd x"] by simp
  then show "case x of (k, r) \<Rightarrow>
     (status r = ''delivered'' \<longrightarrow>
        (\<exists>h \<in> set (trackingHistory r). ev_status h = ''delivered'')
        \<and> (\<exists>h. find (\<lambda>h. ev_status h = ''delivered'') (trackingHistory r) = Some h
               \<and> delivered_on r = Inr (Some (ev_timestamp h))))
     \<and> delivered_on r \<noteq> Inl TypeError"
    by (auto simp add: case_prod_beta delivered_on_def ORD123456_def ORD789012_def)
qed

theorem delivered_entry_exists_witness:
  "(''ORD789012'', ORD789012) \<in> set mockOrderStatuses
   \<and> status ORD789012 = ''delivered''
   \<and> (\<exists>h \<in> set (trackingHistory ORD789012). ev_status h = ''delivered'')
   \<and> (\<exists>h. find (\<lambda>h. ev_status h = ''delivered'') (trackingHistory ORD789012) = Some h
          \<and> delivered_on ORD789012 = Inr (Some (ev_timestamp h)))"
proof -
  have m: "(''ORD789012'', ORD789012) \<in> set mockOrderStatuses"
    by (simp add: mockOrderStatuses_def)
  have d: "status ORD789012 = ''delivered''"
    by (simp add: ORD789012_def)
  from bspec [OF delivered_entry_exists m] m d show ?thesis by simp
qed

end
